theory Spec2Isabelle
  imports Complex_Main
begin

section \<open>Values at the JavaScript boundary\<close>

text \<open>
  Fields of a request body and properties of the configuration object are strings that
  may be missing; a missing one is \<open>None\<close> (JavaScript's \<open>undefined\<close>). The route
  validators declare every body field a string, so no other JSON value is modelled.
  \<open>truthy\<close> is JavaScript's truthiness on such a value (\<open>!v\<close> is its negation),
  \<open>or_else\<close> is \<open>v || d\<close> and \<open>template_str\<close> is the text a template literal
  \<open>`${v}`\<close> produces.
\<close>

definition truthy :: "string option \<Rightarrow> bool" where
  "truthy v = (case v of None \<Rightarrow> False | Some s \<Rightarrow> s \<noteq> [])"

definition or_else :: "string option \<Rightarrow> string \<Rightarrow> string" where
  "or_else v d = (case v of None \<Rightarrow> d | Some s \<Rightarrow> if s = [] then d else s)"

definition template_str :: "string option \<Rightarrow> string" where
  "template_str v = (case v of None \<Rightarrow> ''undefined'' | Some s \<Rightarrow> s)"

definition property :: "(string \<times> 'a) list \<Rightarrow> string \<Rightarrow> 'a option" where
  "property obj k = map_of obj k"

section \<open>config/env.ts\<close>

type_synonym env = "string \<Rightarrow> string option"

text \<open>The object literal \<open>config.innovatrics\<close>: exactly three properties.\<close>

definition config_innovatrics :: "env \<Rightarrow> (string \<times> string) list" where
  "config_innovatrics e =
     [(''baseUrl'', or_else (e ''INNOVATRICS_BASE_URL'') ''https://dot.innovatrics.com/identity''),
      (''apiKey'', or_else (e ''INNOVATRICS_API_KEY'') ''your_innovatrics_api_key''),
      (''apiSecret'', or_else (e ''INNOVATRICS_API_SECRET'') ''your_innovatrics_api_secret'')]"

section \<open>services/innovatricsClient.ts: the data\<close>

record CustomerStoreRequest =
  externalId :: "string option"
  onboardingStatus :: string

record CreateCustomerResponse =
  customer_id :: string
  customer_links_self :: string

record boundingBox =
  box_x :: rat
  box_y :: rat
  box_width :: rat
  box_height :: rat

record CreateFaceResponse =
  face_id :: string
  detection_score :: rat
  detection_boundingBox :: boundingBox
  face_links_self :: string
  face_links_template :: string

record FaceSimilarityResponse =
  similarity_score :: rat

record LivenessCheckOptions =
  deepfakeCheck :: "bool option"

record CreateLivenessRequest =
  req_challengeType :: "string option"
  req_options :: "LivenessCheckOptions option"

record LivenessChallengeResponse =
  challenge_challengeId :: string
  challenge_challengeType :: string
  challenge_instructions :: string

record DocumentVerificationRequest =
  doc_frontImage :: string
  doc_backImage :: "string option"
  doc_documentType :: "string option"

record DocumentVerificationResponse =
  documentType :: string
  issuingCountry :: string
  documentNumber :: string
  expirationDate :: string
  personalNumber :: "string option"
  verificationStatus :: string
  document_confidence :: rat

record LivenessResult =
  liveness_confidence :: rat
  liveness_status :: string
  isDeepfake :: "bool option"
  deepfakeConfidence :: "rat option"

record FaceTemplate =
  template_data :: string
  template_version :: string

record MaskResult =
  mask_score :: rat

record SelfieRef =
  selfie_id :: string

record SelfieImage =
  selfie_image :: string

text \<open>What axios rejects with: \<open>error.response?.data?.message\<close> (missing when the
  provider sent no response or no message) and \<open>error.message\<close>.\<close>

record axios_error =
  response_data_message :: "string option"
  error_message :: string

definition error_text :: "axios_error \<Rightarrow> string" where
  "error_text e = or_else (response_data_message e) (error_message e)"

subsection \<open>Requests on the wire\<close>

datatype http_method = HGet | HPost | HPut | HDelete

datatype body =
    NoBody
  | StoreBody CustomerStoreRequest
  | ImageBody string
  | SimilarityBody "string option" "string option"
  | ChallengeBody CreateLivenessRequest
  | LivenessBody string "string option" LivenessCheckOptions
  | DocumentBody string "string option" string
  | BinaryBody "nat list"

record request =
  req_method :: http_method
  url :: string
  payload :: body
  req_headers :: "(string \<times> string option) list"

definition mk_request :: "http_method \<Rightarrow> string \<Rightarrow> body \<Rightarrow> request" where
  "mk_request m u b = \<lparr>req_method = m, url = u, payload = b, req_headers = []\<rparr>"

text \<open>
  The provider is outside the program. Each endpoint answers a request, knowing every
  request sent before it (oldest first), with an axios error or with data of the type
  the adapter declares for it.
\<close>

type_synonym 'a endpoint = "request list \<Rightarrow> request \<Rightarrow> axios_error + 'a"

record provider =
  post_customers :: "CreateCustomerResponse endpoint"
  post_customer_store :: "unit endpoint"
  post_faces :: "CreateFaceResponse endpoint"
  post_similarity :: "FaceSimilarityResponse endpoint"
  get_face_template :: "FaceTemplate endpoint"
  get_face_mask :: "MaskResult endpoint"
  put_liveness_challenge :: "LivenessChallengeResponse endpoint"
  put_liveness :: "LivenessResult endpoint"
  delete_liveness :: "unit endpoint"
  post_documents :: "string endpoint"
  post_document_verify :: "DocumentVerificationResponse endpoint"
  put_selfie :: "SelfieRef endpoint"
  get_selfie :: "SelfieImage endpoint"
  delete_selfie :: "unit endpoint"
  put_binary :: "string endpoint"

subsection \<open>The axios client built by the constructor\<close>

record axios_client =
  baseURL :: "string option"
  headers :: "(string \<times> string option) list"
  timeout :: nat
  proxy :: bool
  rejectUnauthorized :: bool
  keepAlive :: bool

definition InnovatricsService :: "env \<Rightarrow> axios_client" where
  "InnovatricsService e =
     \<lparr>baseURL = property (config_innovatrics e) ''baseUrl'',
      headers =
        [(''Authorization'', Some (''Bearer '' @ template_str (property (config_innovatrics e) ''bearerToken''))),
         (''Content-Type'', Some ''application/json''),
         (''Host'', property (config_innovatrics e) ''host'')],
      timeout = 60000,
      proxy = False,
      rejectUnauthorized = False,
      keepAlive = True\<rparr>"

text \<open>axios merges the headers of one request over the client's defaults.\<close>

definition wire_headers :: "axios_client \<Rightarrow> request \<Rightarrow> (string \<times> string option) list" where
  "wire_headers c r = req_headers r @ filter (\<lambda>kv. fst kv \<notin> fst ` set (req_headers r)) (headers c)"

subsection \<open>One call: send, record it, wrap the error\<close>

text \<open>
  Every adapter method is \<open>try { await client.m(url, body); return response.data }
  catch (error) { throw new Error(`<prefix>: ${error.response?.data?.message || error.message}`) }\<close>.
  A thrown \<open>Error\<close> is its message, on the left of the sum. The list is every request
  sent so far.
\<close>

definition send :: "'a endpoint \<Rightarrow> request list \<Rightarrow> request \<Rightarrow> string \<Rightarrow> (string + 'a) \<times> request list" where
  "send ep h r prefix =
     (case ep h r of
        Inl e \<Rightarrow> (Inl (prefix @ '': '' @ error_text e), h @ [r])
      | Inr d \<Rightarrow> (Inr d, h @ [r]))"

definition createCustomer :: "provider \<Rightarrow> request list \<Rightarrow> (string + CreateCustomerResponse) \<times> request list" where
  "createCustomer p h = send (post_customers p) h (mk_request HPost ''/customers'' NoBody) ''Failed to create customer''"

definition storeCustomer :: "provider \<Rightarrow> request list \<Rightarrow> string \<Rightarrow> CustomerStoreRequest \<Rightarrow> (string + unit) \<times> request list" where
  "storeCustomer p h customerId body =
     send (post_customer_store p) h
       (mk_request HPost (''/customers/'' @ customerId @ ''/store'') (StoreBody body))
       ''Failed to store customer''"

definition updateCustomerOnboardingStatus ::
  "provider \<Rightarrow> request list \<Rightarrow> string \<Rightarrow> string \<Rightarrow> string option \<Rightarrow> (string + unit) \<times> request list" where
  "updateCustomerOnboardingStatus p h customerId status ext =
     storeCustomer p h customerId
       \<lparr>externalId = (if truthy ext then ext else None), onboardingStatus = status\<rparr>"

definition detectFace :: "provider \<Rightarrow> request list \<Rightarrow> string \<Rightarrow> (string + CreateFaceResponse) \<times> request list" where
  "detectFace p h imageData =
     send (post_faces p) h (mk_request HPost ''/faces'' (ImageBody imageData)) ''Failed to detect face''"

definition compareFaces ::
  "provider \<Rightarrow> request list \<Rightarrow> string \<Rightarrow> string option \<Rightarrow> string option \<Rightarrow> (string + FaceSimilarityResponse) \<times> request list" where
  "compareFaces p h probeFaceId referenceFace referenceFaceTemplate =
     send (post_similarity p) h
       (mk_request HPost (''/faces/'' @ probeFaceId @ ''/similarity'')
          (SimilarityBody referenceFace referenceFaceTemplate))
       ''Failed to compare faces''"

definition getFaceTemplate :: "provider \<Rightarrow> request list \<Rightarrow> string \<Rightarrow> (string + FaceTemplate) \<times> request list" where
  "getFaceTemplate p h faceId =
     send (get_face_template p) h (mk_request HGet (''/faces/'' @ faceId @ ''/face-template'') NoBody)
       ''Failed to get face template''"

definition checkFaceMask :: "provider \<Rightarrow> request list \<Rightarrow> string \<Rightarrow> (string + MaskResult) \<times> request list" where
  "checkFaceMask p h faceId =
     send (get_face_mask p) h (mk_request HGet (''/faces/'' @ faceId @ ''/face-mask'') NoBody)
       ''Failed to check face mask''"

definition createLivenessChallenge ::
  "provider \<Rightarrow> request list \<Rightarrow> string \<Rightarrow> CreateLivenessRequest option \<Rightarrow> (string + LivenessChallengeResponse) \<times> request list" where
  "createLivenessChallenge p h customerId challengeRequest =
     send (put_liveness_challenge p) h
       (mk_request HPut (''/customers/'' @ customerId @ ''/liveness/records/challenge'')
          (ChallengeBody (case challengeRequest of
                            None \<Rightarrow> \<lparr>req_challengeType = None, req_options = None\<rparr>
                          | Some cr \<Rightarrow> cr)))
       ''Failed to create liveness challenge''"

definition submitLivenessData ::
  "provider \<Rightarrow> request list \<Rightarrow> string \<Rightarrow> string \<Rightarrow> string option \<Rightarrow> LivenessCheckOptions option \<Rightarrow>
   (string + LivenessResult) \<times> request list" where
  "submitLivenessData p h customerId img challengeId options =
     send (put_liveness p) h
       (mk_request HPut (''/customers/'' @ customerId @ ''/liveness'')
          (LivenessBody img challengeId
             (case options of None \<Rightarrow> \<lparr>deepfakeCheck = None\<rparr> | Some opts \<Rightarrow> opts)))
       ''Failed to submit liveness data''"

definition deleteLivenessData :: "provider \<Rightarrow> request list \<Rightarrow> string \<Rightarrow> (string + unit) \<times> request list" where
  "deleteLivenessData p h customerId =
     send (delete_liveness p) h (mk_request HDelete (''/api/v1/customers/'' @ customerId @ ''/liveness'') NoBody)
       ''Failed to delete liveness data''"

definition uploadSelfie :: "provider \<Rightarrow> request list \<Rightarrow> string \<Rightarrow> string \<Rightarrow> (string + SelfieRef) \<times> request list" where
  "uploadSelfie p h customerId selfieData =
     send (put_selfie p) h (mk_request HPut (''/customers/'' @ customerId @ ''/selfie'') (ImageBody selfieData))
       ''Failed to upload selfie''"

definition getSelfie :: "provider \<Rightarrow> request list \<Rightarrow> string \<Rightarrow> (string + SelfieImage) \<times> request list" where
  "getSelfie p h customerId =
     send (get_selfie p) h (mk_request HGet (''/api/v1/customers/'' @ customerId @ ''/selfie'') NoBody)
       ''Failed to get selfie''"

definition deleteSelfie :: "provider \<Rightarrow> request list \<Rightarrow> string \<Rightarrow> (string + unit) \<times> request list" where
  "deleteSelfie p h customerId =
     send (delete_selfie p) h (mk_request HDelete (''/api/v1/customers/'' @ customerId @ ''/selfie'') NoBody)
       ''Failed to delete selfie''"

definition uploadBinaryImage ::
  "provider \<Rightarrow> request list \<Rightarrow> string \<Rightarrow> nat list \<Rightarrow> string \<Rightarrow> (string + string) \<times> request list" where
  "uploadBinaryImage p h customerId imageBuffer endpoint =
     send (put_binary p) h
       \<lparr>req_method = HPut, url = endpoint, payload = BinaryBody imageBuffer,
        req_headers = [(''Content-Type'', Some ''application/octet-stream'')]\<rparr>
       ''Failed to upload binary image''"

text \<open>\<open>verifyDocument\<close> sends two requests inside one \<open>try\<close>: the record, then its
  verification; either failure is wrapped with the same prefix.\<close>

definition verifyDocument ::
  "provider \<Rightarrow> request list \<Rightarrow> DocumentVerificationRequest \<Rightarrow> (string + DocumentVerificationResponse) \<times> request list" where
  "verifyDocument p h documentData =
     (case send (post_documents p) h
             (mk_request HPost ''/documents''
                (DocumentBody (doc_frontImage documentData) (doc_backImage documentData)
                   (or_else (doc_documentType documentData) ''id_card'')))
             ''Failed to verify document'' of
        (Inl e, h1) \<Rightarrow> (Inl e, h1)
      | (Inr docId, h1) \<Rightarrow>
          send (post_document_verify p) h1
            (mk_request HPost (''/documents/'' @ docId @ ''/verify'') NoBody)
            ''Failed to verify document'')"

text \<open>\<open>evaluateLiveness\<close>: challenge, stored selfie, submission; any failure inside is
  caught and rethrown as \<open>Liveness evaluation failed: <message>\<close>.\<close>

definition evaluateLiveness ::
  "provider \<Rightarrow> request list \<Rightarrow> string \<Rightarrow> string option \<Rightarrow> bool option \<Rightarrow> (string + LivenessResult) \<times> request list" where
  "evaluateLiveness p h customerId challengeType deepfake =
     (case createLivenessChallenge p h customerId
             (Some \<lparr>req_challengeType = Some (or_else challengeType ''passive''),
                    req_options = Some \<lparr>deepfakeCheck = deepfake\<rparr>\<rparr>) of
        (Inl e, h1) \<Rightarrow> (Inl (''Liveness evaluation failed: '' @ e), h1)
      | (Inr challenge, h1) \<Rightarrow>
          (case getSelfie p h1 customerId of
             (Inl e, h2) \<Rightarrow> (Inl (''Liveness evaluation failed: '' @ e), h2)
           | (Inr selfie, h2) \<Rightarrow>
               (case submitLivenessData p h2 customerId (selfie_image selfie)
                       (Some (challenge_challengeId challenge)) (Some \<lparr>deepfakeCheck = deepfake\<rparr>) of
                  (Inl e, h3) \<Rightarrow> (Inl (''Liveness evaluation failed: '' @ e), h3)
                | (Inr result, h3) \<Rightarrow> (Inr result, h3))))"

section \<open>controllers/verificationController.ts\<close>

text \<open>
  A controller method ends in one call of \<open>ResponseHandler\<close>: \<open>success(res, data,
  message)\<close>, \<open>validationError(res, errors)\<close> or \<open>error(res, message, statusCode,
  detail)\<close>. The response of the model is that call with its arguments; \<open>data\<close> is the
  object literal, property by property. \<open>new Date()\<close> is the argument \<open>now\<close>.
\<close>

datatype field_value =
    Str string
  | Flag bool
  | Date nat
  | Document DocumentVerificationResponse
  | Liveness LivenessResult
  | Face CreateFaceResponse
  | Mask MaskResult
  | Similarity FaceSimilarityResponse
  | Challenge LivenessChallengeResponse
  | SelfieId SelfieRef
  | Selfie SelfieImage

datatype response =
    ResponseHandler_success "(string \<times> field_value) list" string
  | ResponseHandler_validationError "string list"
  | ResponseHandler_error string nat string

text \<open>JavaScript drops the arguments a function declares no parameter for.\<close>

definition call_dropping_arguments :: "'r \<Rightarrow> 'a \<Rightarrow> 'r" where
  "call_dropping_arguments f args = f"

definition VerificationController_createCustomer ::
  "provider \<Rightarrow> nat \<Rightarrow> request list \<Rightarrow> string option \<Rightarrow> response \<times> request list" where
  "VerificationController_createCustomer p now h userId =
     (case userId of
        None \<Rightarrow> (ResponseHandler_validationError [''userId is required''], h)
      | Some u \<Rightarrow>
          if u = [] then (ResponseHandler_validationError [''userId is required''], h)
          else
            (case call_dropping_arguments (createCustomer p h)
                    \<lparr>externalId = Some u, onboardingStatus = ''IN_PROGRESS''\<rparr> of
               (Inl e, h1) \<Rightarrow> (ResponseHandler_error ''Failed to create customer'' 500 e, h1)
             | (Inr customer, h1) \<Rightarrow>
                 (ResponseHandler_success
                    [(''customerId'', Str (customer_id customer)),
                     (''status'', Str ''created''),
                     (''createdAt'', Date now),
                     (''userId'', Str u)]
                    ''Customer created successfully'', h1)))"

definition VerificationController_uploadDocument ::
  "provider \<Rightarrow> request list \<Rightarrow> string \<Rightarrow> string option \<Rightarrow> string option \<Rightarrow> string option \<Rightarrow>
   response \<times> request list" where
  "VerificationController_uploadDocument p h customerId frontImage backImage docType =
     (case frontImage of
        None \<Rightarrow> (ResponseHandler_validationError [''frontImage is required''], h)
      | Some front \<Rightarrow>
          if front = [] then (ResponseHandler_validationError [''frontImage is required''], h)
          else
            (case verifyDocument p h
                    \<lparr>doc_frontImage = front, doc_backImage = backImage, doc_documentType = docType\<rparr> of
               (Inl e, h1) \<Rightarrow> (ResponseHandler_error ''Failed to verify document'' 500 e, h1)
             | (Inr documentResult, h1) \<Rightarrow>
                 (ResponseHandler_success
                    [(''customerId'', Str customerId),
                     (''documentResult'', Document documentResult),
                     (''status'', Str ''document_verified'')]
                    ''Document verified successfully'', h1)))"

text \<open>
  \<open>performLivenessCheck\<close>: \<open>finalChallengeId\<close> starts as the caller's \<open>challengeId\<close>;
  when that is falsy a challenge is created and its id replaces it.
\<close>

definition VerificationController_performLivenessCheck ::
  "provider \<Rightarrow> request list \<Rightarrow> string \<Rightarrow> string option \<Rightarrow> string option \<Rightarrow> string option \<Rightarrow>
   response \<times> request list" where
  "VerificationController_performLivenessCheck p h customerId image_field challengeId challengeType =
     (case image_field of
        None \<Rightarrow> (ResponseHandler_validationError [''image is required''], h)
      | Some img \<Rightarrow>
          if img = [] then (ResponseHandler_validationError [''image is required''], h)
          else
            (case (if \<not> truthy challengeId
                   then (case createLivenessChallenge p h customerId
                                (Some \<lparr>req_challengeType = Some (or_else challengeType ''passive''),
                                       req_options = None\<rparr>) of
                           (Inl e, h1) \<Rightarrow> (Inl e, h1)
                         | (Inr challenge, h1) \<Rightarrow> (Inr (Some (challenge_challengeId challenge)), h1))
                   else (Inr challengeId, h)) of
               (Inl e, h1) \<Rightarrow> (ResponseHandler_error ''Failed to perform liveness check'' 500 e, h1)
             | (Inr finalChallengeId, h1) \<Rightarrow>
                 (case submitLivenessData p h1 customerId img finalChallengeId None of
                    (Inl e, h2) \<Rightarrow> (ResponseHandler_error ''Failed to perform liveness check'' 500 e, h2)
                  | (Inr livenessResult, h2) \<Rightarrow>
                      (ResponseHandler_success
                         [(''customerId'', Str customerId),
                          (''livenessResult'', Liveness livenessResult),
                          (''status'', Str ''liveness_checked'')]
                         ''Liveness check performed successfully'', h2))))"

definition VerificationController_performFaceDetection ::
  "provider \<Rightarrow> request list \<Rightarrow> string \<Rightarrow> string option \<Rightarrow> response \<times> request list" where
  "VerificationController_performFaceDetection p h customerId image_field =
     (case image_field of
        None \<Rightarrow> (ResponseHandler_validationError [''image is required''], h)
      | Some img \<Rightarrow>
          if img = [] then (ResponseHandler_validationError [''image is required''], h)
          else
            (case detectFace p h img of
               (Inl e, h1) \<Rightarrow> (ResponseHandler_error ''Failed to detect face'' 500 e, h1)
             | (Inr faceResult, h1) \<Rightarrow>
                 (case checkFaceMask p h1 (face_id faceResult) of
                    (Inl e, h2) \<Rightarrow> (ResponseHandler_error ''Failed to detect face'' 500 e, h2)
                  | (Inr maskResult, h2) \<Rightarrow>
                      (ResponseHandler_success
                         [(''customerId'', Str customerId),
                          (''faceResult'', Face faceResult),
                          (''maskResult'', Mask maskResult),
                          (''status'', Str ''face_detected'')]
                         ''Face detection and mask check performed successfully'', h2))))"

definition VerificationController_compareFaces ::
  "provider \<Rightarrow> request list \<Rightarrow> string \<Rightarrow> string option \<Rightarrow> string option \<Rightarrow> string option \<Rightarrow>
   response \<times> request list" where
  "VerificationController_compareFaces p h customerId probeFaceId referenceFace referenceFaceTemplate =
     (case probeFaceId of
        None \<Rightarrow> (ResponseHandler_validationError [''probeFaceId is required''], h)
      | Some probe \<Rightarrow>
          if probe = [] then (ResponseHandler_validationError [''probeFaceId is required''], h)
          else if \<not> truthy referenceFace \<and> \<not> truthy referenceFaceTemplate
          then (ResponseHandler_validationError
                  [''Either referenceFace or referenceFaceTemplate is required''], h)
          else
            (case compareFaces p h probe referenceFace referenceFaceTemplate of
               (Inl e, h1) \<Rightarrow> (ResponseHandler_error ''Failed to compare faces'' 500 e, h1)
             | (Inr similarityResult, h1) \<Rightarrow>
                 (ResponseHandler_success
                    [(''customerId'', Str customerId),
                     (''similarityResult'', Similarity similarityResult),
                     (''status'', Str ''faces_compared'')]
                    ''Face comparison performed successfully'', h1)))"

definition VerificationController_createLivenessChallenge ::
  "provider \<Rightarrow> request list \<Rightarrow> string \<Rightarrow> string option \<Rightarrow> response \<times> request list" where
  "VerificationController_createLivenessChallenge p h customerId challengeType =
     (case createLivenessChallenge p h customerId
             (Some \<lparr>req_challengeType = challengeType, req_options = None\<rparr>) of
        (Inl e, h1) \<Rightarrow> (ResponseHandler_error ''Failed to create liveness challenge'' 500 e, h1)
      | (Inr challenge, h1) \<Rightarrow>
          (ResponseHandler_success
             [(''customerId'', Str customerId),
              (''challenge'', Challenge challenge),
              (''status'', Str ''challenge_created'')]
             ''Liveness challenge created successfully'', h1))"

definition VerificationController_uploadSelfie ::
  "provider \<Rightarrow> request list \<Rightarrow> string \<Rightarrow> string option \<Rightarrow> response \<times> request list" where
  "VerificationController_uploadSelfie p h customerId image_field =
     (case image_field of
        None \<Rightarrow> (ResponseHandler_validationError [''image is required''], h)
      | Some img \<Rightarrow>
          if img = [] then (ResponseHandler_validationError [''image is required''], h)
          else
            (case uploadSelfie p h customerId img of
               (Inl e, h1) \<Rightarrow> (ResponseHandler_error ''Failed to upload selfie'' 500 e, h1)
             | (Inr selfieResult, h1) \<Rightarrow>
                 (ResponseHandler_success
                    [(''customerId'', Str customerId),
                     (''selfieResult'', SelfieId selfieResult),
                     (''status'', Str ''selfie_uploaded'')]
                    ''Selfie uploaded successfully'', h1)))"

definition VerificationController_getSelfie ::
  "provider \<Rightarrow> request list \<Rightarrow> string \<Rightarrow> response \<times> request list" where
  "VerificationController_getSelfie p h customerId =
     (case getSelfie p h customerId of
        (Inl e, h1) \<Rightarrow> (ResponseHandler_error ''Failed to retrieve selfie'' 500 e, h1)
      | (Inr selfie, h1) \<Rightarrow>
          (ResponseHandler_success
             [(''customerId'', Str customerId),
              (''selfie'', Selfie selfie),
              (''status'', Str ''selfie_retrieved'')]
             ''Selfie retrieved successfully'', h1))"

text \<open>\<open>getCustomerStatus\<close> sends nothing and reads nothing: its answer is a literal.\<close>

definition VerificationController_getCustomerStatus ::
  "request list \<Rightarrow> string \<Rightarrow> response \<times> request list" where
  "VerificationController_getCustomerStatus h customerId =
     (ResponseHandler_success
        [(''customerId'', Str customerId),
         (''status'', Str ''active''),
         (''onboardingStatus'', Str ''IN_PROGRESS'')]
        ''Customer status retrieved successfully'', h)"

text \<open>\<open>deleteCustomer\<close>: the two deletions are awaited one after the other inside one
  \<open>try\<close>, so the first that throws ends the method in the \<open>catch\<close>.\<close>

definition VerificationController_deleteCustomer ::
  "provider \<Rightarrow> request list \<Rightarrow> string \<Rightarrow> response \<times> request list" where
  "VerificationController_deleteCustomer p h customerId =
     (case deleteSelfie p h customerId of
        (Inl e, h1) \<Rightarrow> (ResponseHandler_error ''Failed to delete customer data'' 500 e, h1)
      | (Inr _, h1) \<Rightarrow>
          (case deleteLivenessData p h1 customerId of
             (Inl e, h2) \<Rightarrow> (ResponseHandler_error ''Failed to delete customer data'' 500 e, h2)
           | (Inr _, h2) \<Rightarrow>
               (ResponseHandler_success
                  [(''customerId'', Str customerId), (''deleted'', Flag True)]
                  ''Customer data deleted successfully'', h2)))"

section \<open>routes/verificationRoutes.ts\<close>

text \<open>The custom validator of \<open>validateFaceComparison\<close>: it throws (left) or returns
  \<open>true\<close>.\<close>

definition validateFaceComparison_custom :: "string option \<Rightarrow> string option \<Rightarrow> string + bool" where
  "validateFaceComparison_custom referenceFace referenceFaceTemplate =
     (if \<not> truthy referenceFace \<and> \<not> truthy referenceFaceTemplate
      then Inl ''Either referenceFace or referenceFaceTemplate is required''
      else Inr True)"

text \<open>
  The router binds one controller method to each route. An operation is one invocation
  with the route parameter and the body fields the method reads; a session is a sequence
  of them against the same provider, and its log pairs each with its response.
\<close>

datatype operation =
    CreateCustomer nat "string option"
  | UploadDocument string "string option" "string option" "string option"
  | PerformLivenessCheck string "string option" "string option" "string option"
  | PerformFaceDetection string "string option"
  | CompareFaces string "string option" "string option" "string option"
  | CreateLivenessChallenge string "string option"
  | UploadSelfie string "string option"
  | GetSelfie string
  | GetCustomerStatus string
  | DeleteCustomer string

fun perform :: "provider \<Rightarrow> request list \<Rightarrow> operation \<Rightarrow> response \<times> request list" where
  "perform p h (CreateCustomer now userId) = VerificationController_createCustomer p now h userId"
| "perform p h (UploadDocument c front back t) = VerificationController_uploadDocument p h c front back t"
| "perform p h (PerformLivenessCheck c img ch t) = VerificationController_performLivenessCheck p h c img ch t"
| "perform p h (PerformFaceDetection c img) = VerificationController_performFaceDetection p h c img"
| "perform p h (CompareFaces c probe rf rt) = VerificationController_compareFaces p h c probe rf rt"
| "perform p h (CreateLivenessChallenge c t) = VerificationController_createLivenessChallenge p h c t"
| "perform p h (UploadSelfie c img) = VerificationController_uploadSelfie p h c img"
| "perform p h (GetSelfie c) = VerificationController_getSelfie p h c"
| "perform p h (GetCustomerStatus c) = VerificationController_getCustomerStatus h c"
| "perform p h (DeleteCustomer c) = VerificationController_deleteCustomer p h c"

type_synonym log = "(operation \<times> response) list"

fun run :: "provider \<Rightarrow> request list \<Rightarrow> log \<Rightarrow> operation list \<Rightarrow> log \<times> request list" where
  "run p h lg [] = (lg, h)"
| "run p h lg (op # ops) = (case perform p h op of (r, h1) \<Rightarrow> run p h1 (lg @ [(op, r)]) ops)"

subsection \<open>What earlier stages of a session produced\<close>

definition data_of :: "response \<Rightarrow> (string \<times> field_value) list" where
  "data_of r = (case r of ResponseHandler_success d m \<Rightarrow> d | _ \<Rightarrow> [])"

fun subject_of :: "operation \<Rightarrow> string option" where
  "subject_of (CreateCustomer now userId) = None"
| "subject_of (UploadDocument c front back t) = Some c"
| "subject_of (PerformLivenessCheck c img ch t) = Some c"
| "subject_of (PerformFaceDetection c img) = Some c"
| "subject_of (CompareFaces c probe rf rt) = Some c"
| "subject_of (CreateLivenessChallenge c t) = Some c"
| "subject_of (UploadSelfie c img) = Some c"
| "subject_of (GetSelfie c) = Some c"
| "subject_of (GetCustomerStatus c) = Some c"
| "subject_of (DeleteCustomer c) = Some c"

text \<open>The values stored under one property by the successful responses given to one
  subject, oldest first.\<close>

definition produced :: "log \<Rightarrow> string \<Rightarrow> string \<Rightarrow> field_value list" where
  "produced lg c k =
     List.map_filter (\<lambda>(op, r). if subject_of op = Some c then property (data_of r) k else None) lg"

definition detected_face_ids :: "log \<Rightarrow> string \<Rightarrow> string list" where
  "detected_face_ids lg c =
     List.map_filter (\<lambda>v. case v of Face f \<Rightarrow> Some (face_id f) | _ \<Rightarrow> None) (produced lg c ''faceResult'')"

definition latest :: "'a list \<Rightarrow> 'a option" where
  "latest xs = (case rev xs of [] \<Rightarrow> None | x # _ \<Rightarrow> Some x)"

text \<open>
  The overall status in the words of the specification, over a session's log:
  \<open>completed\<close> when the latest document result is \<open>verified\<close>, the latest liveness
  result is \<open>live\<close> and the latest similarity result is a match, \<open>in_progress\<close>
  otherwise. The code gives a similarity only a score; a match is a score of at least
  \<open>threshold\<close>, which the specification leaves open.
\<close>

definition document_positive :: "log \<Rightarrow> string \<Rightarrow> bool" where
  "document_positive lg c =
     (case latest (produced lg c ''documentResult'') of
        Some (Document d) \<Rightarrow> verificationStatus d = ''verified'' | _ \<Rightarrow> False)"

definition liveness_positive :: "log \<Rightarrow> string \<Rightarrow> bool" where
  "liveness_positive lg c =
     (case latest (produced lg c ''livenessResult'') of
        Some (Liveness l) \<Rightarrow> liveness_status l = ''live'' | _ \<Rightarrow> False)"

definition face_match_positive :: "rat \<Rightarrow> log \<Rightarrow> string \<Rightarrow> bool" where
  "face_match_positive threshold lg c =
     (case latest (produced lg c ''similarityResult'') of
        Some (Similarity s) \<Rightarrow> threshold \<le> similarity_score s | _ \<Rightarrow> False)"

definition spec_overallStatus :: "rat \<Rightarrow> log \<Rightarrow> string \<Rightarrow> string" where
  "spec_overallStatus threshold lg c =
     (if document_positive lg c \<and> liveness_positive lg c \<and> face_match_positive threshold lg c
      then ''completed'' else ''in_progress'')"

definition is_failure :: "response \<Rightarrow> bool" where
  "is_failure r = (case r of ResponseHandler_success d m \<Rightarrow> False | _ \<Rightarrow> True)"

section \<open>Providers to run the code against\<close>

text \<open>An endpoint from which no response arrives: axios rejects with its own message
  and \<open>error.response\<close> is missing.\<close>

definition no_response :: "string \<Rightarrow> 'a endpoint" where
  "no_response m = (\<lambda>h r. Inl \<lparr>response_data_message = None, error_message = m\<rparr>)"

definition answer :: "'a \<Rightarrow> 'a endpoint" where
  "answer d = (\<lambda>h r. Inr d)"

definition unreachable :: "'a endpoint" where
  "unreachable = (\<lambda>h r. Inl \<lparr>response_data_message = None, error_message = ''connect ECONNREFUSED''\<rparr>)"

definition rejecting :: "string \<Rightarrow> 'a endpoint" where
  "rejecting m = (\<lambda>h r. Inl \<lparr>response_data_message = Some m,
                              error_message = ''Request failed with status code 400''\<rparr>)"

text \<open>A provider that accepts everything and reports the best outcome at every stage.
  Its challenge ids count the requests it has seen, so two challenges never share one.\<close>

definition agreeable :: provider where
  "agreeable =
     \<lparr>post_customers = answer \<lparr>customer_id = ''cust_1'', customer_links_self = ''/customers/cust_1''\<rparr>,
      post_customer_store = answer (),
      post_faces = answer
        \<lparr>face_id = ''face_1'', detection_score = 98 / 100,
         detection_boundingBox = \<lparr>box_x = 10, box_y = 20, box_width = 100, box_height = 120\<rparr>,
         face_links_self = ''/faces/face_1'', face_links_template = ''/faces/face_1/face-template''\<rparr>,
      post_similarity = answer \<lparr>similarity_score = 1\<rparr>,
      get_face_template = answer \<lparr>template_data = ''dGVtcGxhdGU='', template_version = ''1''\<rparr>,
      get_face_mask = answer \<lparr>mask_score = 1 / 100\<rparr>,
      put_liveness_challenge = (\<lambda>h r. Inr
        \<lparr>challenge_challengeId = ''challenge_'' @ replicate (length h) CHR ''i'',
         challenge_challengeType = ''passive'', challenge_instructions = ''none''\<rparr>),
      put_liveness = answer
        \<lparr>liveness_confidence = 95 / 100, liveness_status = ''live'',
         isDeepfake = None, deepfakeConfidence = None\<rparr>,
      delete_liveness = answer (),
      post_documents = answer ''doc_1'',
      post_document_verify = answer
        \<lparr>documentType = ''passport'', issuingCountry = ''USA'', documentNumber = ''P123456789'',
         expirationDate = ''2030-12-31'', personalNumber = None, verificationStatus = ''verified'',
         document_confidence = 97 / 100\<rparr>,
      put_selfie = answer \<lparr>selfie_id = ''selfie_1''\<rparr>,
      get_selfie = answer \<lparr>selfie_image = ''c2VsZmll''\<rparr>,
      delete_selfie = answer (),
      put_binary = answer ''ok''\<rparr>"

definition no_mask_service :: provider where
  "no_mask_service = agreeable\<lparr>get_face_mask := rejecting ''mask model unavailable''\<rparr>"

definition selfie_locked :: provider where
  "selfie_locked = agreeable\<lparr>delete_selfie := rejecting ''selfie is locked''\<rparr>"

definition liveness_locked :: provider where
  "liveness_locked = agreeable\<lparr>delete_liveness := rejecting ''liveness record is locked''\<rparr>"

definition offline :: provider where
  "offline =
     \<lparr>post_customers = unreachable, post_customer_store = unreachable, post_faces = unreachable,
      post_similarity = unreachable, get_face_template = unreachable, get_face_mask = unreachable,
      put_liveness_challenge = unreachable, put_liveness = unreachable, delete_liveness = unreachable,
      post_documents = unreachable, post_document_verify = unreachable, put_selfie = unreachable,
      get_selfie = unreachable, delete_selfie = unreachable, put_binary = unreachable\<rparr>"

section \<open>Every method of the adapter\<close>

text \<open>One invocation of a method of \<open>InnovatricsService\<close> with its arguments, and the
  requests on record once it has returned or thrown.\<close>

datatype adapter_call =
    Call_createCustomer
  | Call_storeCustomer string CustomerStoreRequest
  | Call_updateCustomerOnboardingStatus string string "string option"
  | Call_detectFace string
  | Call_compareFaces string "string option" "string option"
  | Call_getFaceTemplate string
  | Call_checkFaceMask string
  | Call_createLivenessChallenge string "CreateLivenessRequest option"
  | Call_submitLivenessData string string "string option" "LivenessCheckOptions option"
  | Call_evaluateLiveness string "string option" "bool option"
  | Call_deleteLivenessData string
  | Call_verifyDocument DocumentVerificationRequest
  | Call_uploadSelfie string string
  | Call_getSelfie string
  | Call_deleteSelfie string
  | Call_uploadBinaryImage string "nat list" string

fun requests_after :: "provider \<Rightarrow> request list \<Rightarrow> adapter_call \<Rightarrow> request list" where
  "requests_after p h Call_createCustomer = snd (createCustomer p h)"
| "requests_after p h (Call_storeCustomer c b) = snd (storeCustomer p h c b)"
| "requests_after p h (Call_updateCustomerOnboardingStatus c s ext) = snd (updateCustomerOnboardingStatus p h c s ext)"
| "requests_after p h (Call_detectFace img) = snd (detectFace p h img)"
| "requests_after p h (Call_compareFaces probe rf rt) = snd (compareFaces p h probe rf rt)"
| "requests_after p h (Call_getFaceTemplate f) = snd (getFaceTemplate p h f)"
| "requests_after p h (Call_checkFaceMask f) = snd (checkFaceMask p h f)"
| "requests_after p h (Call_createLivenessChallenge c cr) = snd (createLivenessChallenge p h c cr)"
| "requests_after p h (Call_submitLivenessData c img ch opts) = snd (submitLivenessData p h c img ch opts)"
| "requests_after p h (Call_evaluateLiveness c t d) = snd (evaluateLiveness p h c t d)"
| "requests_after p h (Call_deleteLivenessData c) = snd (deleteLivenessData p h c)"
| "requests_after p h (Call_verifyDocument d) = snd (verifyDocument p h d)"
| "requests_after p h (Call_uploadSelfie c img) = snd (uploadSelfie p h c img)"
| "requests_after p h (Call_getSelfie c) = snd (getSelfie p h c)"
| "requests_after p h (Call_deleteSelfie c) = snd (deleteSelfie p h c)"
| "requests_after p h (Call_uploadBinaryImage c buf endpoint) = snd (uploadBinaryImage p h c buf endpoint)"

definition deployed_env :: env where
  "deployed_env =
     [''INNOVATRICS_API_KEY'' \<mapsto> ''key-0123'', ''INNOVATRICS_API_SECRET'' \<mapsto> ''secret-4567'']"

section \<open>What a method answers when it fails\<close>




text \<open>A whole verification: document, liveness without a challenge id, detection, and
  the comparison of the detected face.\<close>

definition full_session :: "operation list" where
  "full_session =
     [UploadDocument ''cust_1'' (Some ''ZnJvbnQ='') (Some ''YmFjaw=='') (Some ''passport''),
      PerformLivenessCheck ''cust_1'' (Some ''c2VsZmll'') None None,
      PerformFaceDetection ''cust_1'' (Some ''c2VsZmll''),
      CompareFaces ''cust_1'' (Some ''face_1'') (Some ''/faces/ref_456'') None]"

definition mask_offline :: provider where
  "mask_offline = agreeable\<lparr>get_face_mask := unreachable\<rparr>"

text \<open>Two failures of different kinds with the same words: the provider answers the
  deletion of the selfie with a rejection whose message is \<open>timeout of 60000ms
  exceeded\<close>, or it does not answer and axios gives up with that message.\<close>

definition selfie_rejected :: provider where
  "selfie_rejected = agreeable\<lparr>delete_selfie := rejecting ''timeout of 60000ms exceeded''\<rparr>"

definition selfie_timeout :: provider where
  "selfie_timeout = agreeable\<lparr>delete_selfie := no_response ''timeout of 60000ms exceeded''\<rparr>"

definition customers_refused :: provider where
  "customers_refused = agreeable\<lparr>post_customers := rejecting ''customer quota exceeded''\<rparr>"

section \<open>Unfolding the layers\<close>

lemmas adapter_defs =
  send_def mk_request_def createCustomer_def storeCustomer_def detectFace_def compareFaces_def
  getFaceTemplate_def checkFaceMask_def createLivenessChallenge_def submitLivenessData_def
  deleteLivenessData_def uploadSelfie_def getSelfie_def deleteSelfie_def verifyDocument_def

lemmas controller_defs =
  VerificationController_createCustomer_def VerificationController_uploadDocument_def
  VerificationController_performLivenessCheck_def VerificationController_performFaceDetection_def
  VerificationController_compareFaces_def VerificationController_createLivenessChallenge_def
  VerificationController_uploadSelfie_def VerificationController_getSelfie_def
  VerificationController_getCustomerStatus_def VerificationController_deleteCustomer_def
  call_dropping_arguments_def

lemmas provider_defs =
  agreeable_def no_mask_service_def selfie_locked_def liveness_locked_def offline_def
  mask_offline_def selfie_rejected_def selfie_timeout_def customers_refused_def
  answer_def unreachable_def rejecting_def no_response_def error_text_def or_else_def truthy_def



lemma requests_after_plain:
  "r \<in> set (requests_after p h call) \<Longrightarrow>
   r \<in> set h \<or> req_headers r = [] \<or> req_headers r = [(''Content-Type'', Some ''application/octet-stream'')]"
  by (cases call)
     (auto simp: adapter_defs evaluateLiveness_def updateCustomerOnboardingStatus_def
           uploadBinaryImage_def split: sum.splits prod.splits)

lemma wire_authorization:
  "req_headers r = [] \<or> req_headers r = [(''Content-Type'', v)] \<Longrightarrow>
   property (wire_headers (InnovatricsService e) r) ''Authorization'' = Some (Some ''Bearer undefined'')"
  by (auto simp: wire_headers_def InnovatricsService_def property_def config_innovatrics_def
      template_str_def)

lemma full_session_log:
  "fst (run agreeable [] [] full_session) =
    [(UploadDocument ''cust_1'' (Some ''ZnJvbnQ='') (Some ''YmFjaw=='') (Some ''passport''),
      ResponseHandler_success
        [(''customerId'', Str ''cust_1''),
         (''documentResult'', Document
            \<lparr>documentType = ''passport'', issuingCountry = ''USA'', documentNumber = ''P123456789'',
             expirationDate = ''2030-12-31'', personalNumber = None, verificationStatus = ''verified'',
             document_confidence = 97 / 100\<rparr>),
         (''status'', Str ''document_verified'')]
        ''Document verified successfully''),
     (PerformLivenessCheck ''cust_1'' (Some ''c2VsZmll'') None None,
      ResponseHandler_success
        [(''customerId'', Str ''cust_1''),
         (''livenessResult'', Liveness
            \<lparr>liveness_confidence = 95 / 100, liveness_status = ''live'',
             isDeepfake = None, deepfakeConfidence = None\<rparr>),
         (''status'', Str ''liveness_checked'')]
        ''Liveness check performed successfully''),
     (PerformFaceDetection ''cust_1'' (Some ''c2VsZmll''),
      ResponseHandler_success
        [(''customerId'', Str ''cust_1''),
         (''faceResult'', Face
            \<lparr>face_id = ''face_1'', detection_score = 98 / 100,
             detection_boundingBox = \<lparr>box_x = 10, box_y = 20, box_width = 100, box_height = 120\<rparr>,
             face_links_self = ''/faces/face_1'', face_links_template = ''/faces/face_1/face-template''\<rparr>),
         (''maskResult'', Mask \<lparr>mask_score = 1 / 100\<rparr>),
         (''status'', Str ''face_detected'')]
        ''Face detection and mask check performed successfully''),
     (CompareFaces ''cust_1'' (Some ''face_1'') (Some ''/faces/ref_456'') None,
      ResponseHandler_success
        [(''customerId'', Str ''cust_1''),
         (''similarityResult'', Similarity \<lparr>similarity_score = 1\<rparr>),
         (''status'', Str ''faces_compared'')]
        ''Face comparison performed successfully'')]"
  by (simp add: full_session_def controller_defs adapter_defs provider_defs)

section \<open>Face comparison and earlier detections\<close>

text \<open>
  C1, as the specification states it, fails on the code. On a fresh server, where no face
  was ever detected for the subject, a comparison of the face id \<open>face_x\<close> is answered
  with success and one request has gone to the provider. The same happens after a
  detection for the subject that produced another face id, \<open>face_1\<close>.
\<close>

theorem compareFaces_fresh_subject_reaches_provider:
  "detected_face_ids [] ''cust_1'' = [] \<and>
   perform agreeable [] (CompareFaces ''cust_1'' (Some ''face_x'') (Some ''/faces/ref_456'') None) =
     (ResponseHandler_success
        [(''customerId'', Str ''cust_1''),
         (''similarityResult'', Similarity \<lparr>similarity_score = 1\<rparr>),
         (''status'', Str ''faces_compared'')]
        ''Face comparison performed successfully'',
      [mk_request HPost ''/faces/face_x/similarity'' (SimilarityBody (Some ''/faces/ref_456'') None)]) \<and>
   detected_face_ids (fst (run agreeable [] [] [PerformFaceDetection ''cust_1'' (Some ''c2VsZmll'')])) ''cust_1'' =
     [''face_1''] \<and>
   perform agreeable (snd (run agreeable [] [] [PerformFaceDetection ''cust_1'' (Some ''c2VsZmll'')]))
       (CompareFaces ''cust_1'' (Some ''face_x'') (Some ''/faces/ref_456'') None) =
     (ResponseHandler_success
        [(''customerId'', Str ''cust_1''),
         (''similarityResult'', Similarity \<lparr>similarity_score = 1\<rparr>),
         (''status'', Str ''faces_compared'')]
        ''Face comparison performed successfully'',
      [mk_request HPost ''/faces'' (ImageBody ''c2VsZmll''),
       mk_request HGet ''/faces/face_1/face-mask'' NoBody,
       mk_request HPost ''/faces/face_x/similarity'' (SimilarityBody (Some ''/faces/ref_456'') None)])"
  by (simp add: detected_face_ids_def produced_def List.map_filter_simps data_of_def property_def
      controller_defs adapter_defs provider_defs)

text \<open>
  C1, amended. \<open>compareFaces\<close> keeps no record of detections: given a non-empty
  \<open>probeFaceId\<close> and at least one of the two references, it sends exactly one request,
  \<open>POST /faces/{probeFaceId}/similarity\<close> with the references as passed, whatever was sent
  before, and answers with what the provider said: the similarity, or the error
  \<open>Failed to compare faces\<close> with status 500.
\<close>

theorem compareFaces_sends_without_detection:
  assumes "probe \<noteq> []" and "truthy rf \<or> truthy rt"
  shows "snd (VerificationController_compareFaces p h c (Some probe) rf rt) =
           h @ [mk_request HPost (''/faces/'' @ probe @ ''/similarity'') (SimilarityBody rf rt)] \<and>
         fst (VerificationController_compareFaces p h c (Some probe) rf rt) =
           (case post_similarity p h
                   (mk_request HPost (''/faces/'' @ probe @ ''/similarity'') (SimilarityBody rf rt)) of
              Inl e \<Rightarrow> ResponseHandler_error ''Failed to compare faces'' 500
                         (''Failed to compare faces: '' @ error_text e)
            | Inr s \<Rightarrow> ResponseHandler_success
                         [(''customerId'', Str c), (''similarityResult'', Similarity s),
                          (''status'', Str ''faces_compared'')]
                         ''Face comparison performed successfully'')"
  using assms
  by (auto simp: VerificationController_compareFaces_def compareFaces_def send_def split: sum.splits)

theorem compareFaces_sends_without_detection_witness:
  "''face_9'' \<noteq> [] \<and> truthy (Some ''dGVtcGxhdGU='') \<and>
   snd (VerificationController_compareFaces offline [] ''cust_2'' (Some ''face_9'') None (Some ''dGVtcGxhdGU='')) =
     [mk_request HPost ''/faces/face_9/similarity'' (SimilarityBody None (Some ''dGVtcGxhdGU=''))] \<and>
   fst (VerificationController_compareFaces offline [] ''cust_2'' (Some ''face_9'') None (Some ''dGVtcGxhdGU='')) =
     ResponseHandler_error ''Failed to compare faces'' 500 ''Failed to compare faces: connect ECONNREFUSED''"
  using compareFaces_sends_without_detection
    [where probe = "''face_9''" and rf = None and rt = "Some ''dGVtcGxhdGU=''" and p = offline
       and h = "[]" and c = "''cust_2''"]
  by (simp add: provider_defs mk_request_def)

section \<open>The status operation\<close>

text \<open>
  C2, as the specification states it, fails on the code. After a session in which the
  document came back \<open>verified\<close>, the liveness \<open>live\<close> and the similarity with the
  highest score, the specification's overall status is \<open>completed\<close>, and the status
  operation still answers \<open>IN_PROGRESS\<close>.
\<close>

theorem status_after_full_session_not_completed:
  "spec_overallStatus 1 (fst (run agreeable [] [] full_session)) ''cust_1'' = ''completed'' \<and>
   fst (perform agreeable (snd (run agreeable [] [] full_session)) (GetCustomerStatus ''cust_1'')) =
     ResponseHandler_success
       [(''customerId'', Str ''cust_1''),
        (''status'', Str ''active''),
        (''onboardingStatus'', Str ''IN_PROGRESS'')]
       ''Customer status retrieved successfully''"
  unfolding full_session_log
  by (simp add: spec_overallStatus_def document_positive_def liveness_positive_def
      face_match_positive_def latest_def produced_def List.map_filter_simps data_of_def property_def
      VerificationController_getCustomerStatus_def)

text \<open>
  C2, amended. For every subject and after every session, the status operation answers
  with the same literal: the customer id, \<open>status\<close> \<open>active\<close> and \<open>onboardingStatus\<close>
  \<open>IN_PROGRESS\<close>. It sends nothing to the provider and never reports \<open>completed\<close>.
\<close>

theorem status_is_constant:
  "fst (perform p (snd (run p h lg ops)) (GetCustomerStatus c)) =
     ResponseHandler_success
       [(''customerId'', Str c), (''status'', Str ''active''), (''onboardingStatus'', Str ''IN_PROGRESS'')]
       ''Customer status retrieved successfully'' \<and>
   snd (perform p (snd (run p h lg ops)) (GetCustomerStatus c)) = snd (run p h lg ops)"
  by (simp add: VerificationController_getCustomerStatus_def)

theorem status_is_constant_witness:
  "fst (perform agreeable (snd (run agreeable [] [] [DeleteCustomer ''cust_1''])) (GetCustomerStatus ''cust_1'')) =
     ResponseHandler_success
       [(''customerId'', Str ''cust_1''), (''status'', Str ''active''),
        (''onboardingStatus'', Str ''IN_PROGRESS'')]
       ''Customer status retrieved successfully'' \<and>
   snd (perform agreeable (snd (run agreeable [] [] [DeleteCustomer ''cust_1''])) (GetCustomerStatus ''cust_1'')) =
     [mk_request HDelete ''/api/v1/customers/cust_1/selfie'' NoBody,
      mk_request HDelete ''/api/v1/customers/cust_1/liveness'' NoBody]"
  using status_is_constant
    [where p = agreeable and h = "[]" and lg = "[]" and ops = "[DeleteCustomer ''cust_1'']"
       and c = "''cust_1''"]
  by (simp add: controller_defs adapter_defs provider_defs)

text \<open>
  C6, as the specification states it, fails on the code. The answer to a status query on
  a subject nobody has touched has no property \<open>overallStatus\<close>: it carries
  \<open>status\<close> \<open>active\<close> and the subject's \<open>onboardingStatus\<close>.
\<close>

theorem status_has_no_overallStatus:
  "property (data_of (fst (perform offline [] (GetCustomerStatus ''nobody'')))) ''overallStatus'' = None \<and>
   property (data_of (fst (perform offline [] (GetCustomerStatus ''nobody'')))) ''status'' =
     Some (Str ''active'') \<and>
   data_of (fst (perform offline [] (GetCustomerStatus ''nobody''))) =
     [(''customerId'', Str ''nobody''), (''status'', Str ''active''),
      (''onboardingStatus'', Str ''IN_PROGRESS'')]"
  by (simp add: VerificationController_getCustomerStatus_def data_of_def property_def)

text \<open>
  C6, amended. For every subject, known to the provider or not, and whatever was sent
  before (so in particular before any stage), the status operation does not fail and
  sends nothing. Its data are the customer id, \<open>status\<close> \<open>active\<close> and
  \<open>onboardingStatus\<close> \<open>IN_PROGRESS\<close>: they hold no document, liveness, face or
  similarity result and no \<open>overallStatus\<close>.
\<close>

theorem status_without_stages:
  "\<not> is_failure (fst (perform p h (GetCustomerStatus c))) \<and>
   snd (perform p h (GetCustomerStatus c)) = h \<and>
   data_of (fst (perform p h (GetCustomerStatus c))) =
     [(''customerId'', Str c), (''status'', Str ''active''), (''onboardingStatus'', Str ''IN_PROGRESS'')] \<and>
   property (data_of (fst (perform p h (GetCustomerStatus c)))) ''documentResult'' = None \<and>
   property (data_of (fst (perform p h (GetCustomerStatus c)))) ''livenessResult'' = None \<and>
   property (data_of (fst (perform p h (GetCustomerStatus c)))) ''faceResult'' = None \<and>
   property (data_of (fst (perform p h (GetCustomerStatus c)))) ''similarityResult'' = None \<and>
   property (data_of (fst (perform p h (GetCustomerStatus c)))) ''faceMatchResult'' = None \<and>
   property (data_of (fst (perform p h (GetCustomerStatus c)))) ''overallStatus'' = None \<and>
   property (data_of (fst (perform p h (GetCustomerStatus c)))) ''status'' = Some (Str ''active'') \<and>
   property (data_of (fst (perform p h (GetCustomerStatus c)))) ''onboardingStatus'' = Some (Str ''IN_PROGRESS'')"
  by (simp add: VerificationController_getCustomerStatus_def is_failure_def data_of_def property_def)

theorem status_without_stages_witness:
  "\<not> is_failure (fst (perform agreeable [] (GetCustomerStatus ''cust_7''))) \<and>
   snd (perform agreeable [] (GetCustomerStatus ''cust_7'')) = [] \<and>
   data_of (fst (perform agreeable [] (GetCustomerStatus ''cust_7''))) =
     [(''customerId'', Str ''cust_7''), (''status'', Str ''active''),
      (''onboardingStatus'', Str ''IN_PROGRESS'')] \<and>
   property (data_of (fst (perform agreeable [] (GetCustomerStatus ''cust_7'')))) ''documentResult'' = None \<and>
   property (data_of (fst (perform agreeable [] (GetCustomerStatus ''cust_7'')))) ''overallStatus'' = None"
  using status_without_stages [of agreeable "[]" "''cust_7''"]
  by (simp add: property_def)

section \<open>Liveness with no challenge id\<close>

text \<open>
  C3. With an image and no (or an empty) \<open>challengeId\<close>, the first request of the
  invocation creates a challenge, of the caller's \<open>challengeType\<close> or of type
  \<open>passive\<close> when there is none. If the provider refuses, nothing else is sent. If it
  answers with a challenge, the one further request is the submission of the image with
  exactly that challenge's id, and the result returned is the provider's answer to that
  submission.
\<close>

theorem liveness_uses_created_challenge:
  assumes "img \<noteq> []" and "\<not> truthy challengeId"
  shows "(case put_liveness_challenge p h
                (mk_request HPut (''/customers/'' @ c @ ''/liveness/records/challenge'')
                   (ChallengeBody \<lparr>req_challengeType = Some (or_else t ''passive''), req_options = None\<rparr>)) of
            Inl e \<Rightarrow>
              VerificationController_performLivenessCheck p h c (Some img) challengeId t =
                (ResponseHandler_error ''Failed to perform liveness check'' 500
                   (''Failed to create liveness challenge: '' @ error_text e),
                 h @ [mk_request HPut (''/customers/'' @ c @ ''/liveness/records/challenge'')
                        (ChallengeBody \<lparr>req_challengeType = Some (or_else t ''passive''), req_options = None\<rparr>)])
          | Inr challenge \<Rightarrow>
              snd (VerificationController_performLivenessCheck p h c (Some img) challengeId t) =
                h @ [mk_request HPut (''/customers/'' @ c @ ''/liveness/records/challenge'')
                       (ChallengeBody \<lparr>req_challengeType = Some (or_else t ''passive''), req_options = None\<rparr>),
                     mk_request HPut (''/customers/'' @ c @ ''/liveness'')
                       (LivenessBody img (Some (challenge_challengeId challenge)) \<lparr>deepfakeCheck = None\<rparr>)] \<and>
              fst (VerificationController_performLivenessCheck p h c (Some img) challengeId t) =
                (case put_liveness p
                        (h @ [mk_request HPut (''/customers/'' @ c @ ''/liveness/records/challenge'')
                                (ChallengeBody \<lparr>req_challengeType = Some (or_else t ''passive''), req_options = None\<rparr>)])
                        (mk_request HPut (''/customers/'' @ c @ ''/liveness'')
                           (LivenessBody img (Some (challenge_challengeId challenge)) \<lparr>deepfakeCheck = None\<rparr>)) of
                   Inl e \<Rightarrow> ResponseHandler_error ''Failed to perform liveness check'' 500
                              (''Failed to submit liveness data: '' @ error_text e)
                 | Inr l \<Rightarrow> ResponseHandler_success
                              [(''customerId'', Str c), (''livenessResult'', Liveness l),
                               (''status'', Str ''liveness_checked'')]
                              ''Liveness check performed successfully'')) \<and>
         (\<not> truthy t \<longrightarrow> or_else t ''passive'' = ''passive'')"
  using assms
  by (auto simp: VerificationController_performLivenessCheck_def createLivenessChallenge_def
      submitLivenessData_def send_def or_else_def truthy_def split: sum.splits option.splits)

theorem liveness_uses_created_challenge_witness:
  "''c2VsZmll'' \<noteq> [] \<and> \<not> truthy (Some []) \<and> \<not> truthy None \<and>
   VerificationController_performLivenessCheck agreeable [mk_request HPost ''/customers'' NoBody]
       ''cust_1'' (Some ''c2VsZmll'') (Some []) None =
     (ResponseHandler_success
        [(''customerId'', Str ''cust_1''),
         (''livenessResult'', Liveness
            \<lparr>liveness_confidence = 95 / 100, liveness_status = ''live'',
             isDeepfake = None, deepfakeConfidence = None\<rparr>),
         (''status'', Str ''liveness_checked'')]
        ''Liveness check performed successfully'',
      [mk_request HPost ''/customers'' NoBody,
       mk_request HPut ''/customers/cust_1/liveness/records/challenge''
         (ChallengeBody \<lparr>req_challengeType = Some ''passive'', req_options = None\<rparr>),
       mk_request HPut ''/customers/cust_1/liveness''
         (LivenessBody ''c2VsZmll'' (Some ''challenge_i'') \<lparr>deepfakeCheck = None\<rparr>)])"
  using liveness_uses_created_challenge
    [where img = "''c2VsZmll''" and challengeId = "Some []" and p = agreeable
       and h = "[mk_request HPost ''/customers'' NoBody]" and c = "''cust_1''" and t = None]
  by (simp add: provider_defs mk_request_def prod_eq_iff)

section \<open>Deleting a customer\<close>

text \<open>
  C4, as the specification states it, fails on the code. When the selfie cannot be
  deleted, the deletion of the liveness data is never requested; when the selfie is
  deleted and the liveness data cannot be, the answer is the plain error, with no report
  of what succeeded.
\<close>

theorem deleteCustomer_selfie_failure_skips_liveness:
  "VerificationController_deleteCustomer selfie_locked [] ''cust_1'' =
     (ResponseHandler_error ''Failed to delete customer data'' 500 ''Failed to delete selfie: selfie is locked'',
      [mk_request HDelete ''/api/v1/customers/cust_1/selfie'' NoBody]) \<and>
   VerificationController_deleteCustomer liveness_locked [] ''cust_1'' =
     (ResponseHandler_error ''Failed to delete customer data'' 500
        ''Failed to delete liveness data: liveness record is locked'',
      [mk_request HDelete ''/api/v1/customers/cust_1/selfie'' NoBody,
       mk_request HDelete ''/api/v1/customers/cust_1/liveness'' NoBody])"
  by (simp add: controller_defs adapter_defs provider_defs)

text \<open>
  C4, amended. \<open>deleteCustomer\<close> requests the deletion of the selfie first and of the
  liveness data only once the selfie is deleted. The first deletion that fails ends the
  operation with the error \<open>Failed to delete customer data\<close>, status 500, carrying
  that deletion's error; success, with \<open>deleted: true\<close>, is answered only when both
  deletions succeeded.
\<close>

theorem deleteCustomer_stops_at_first_failure:
  "VerificationController_deleteCustomer p h c =
     (case delete_selfie p h (mk_request HDelete (''/api/v1/customers/'' @ c @ ''/selfie'') NoBody) of
        Inl e \<Rightarrow>
          (ResponseHandler_error ''Failed to delete customer data'' 500
             (''Failed to delete selfie: '' @ error_text e),
           h @ [mk_request HDelete (''/api/v1/customers/'' @ c @ ''/selfie'') NoBody])
      | Inr u \<Rightarrow>
          (case delete_liveness p
                  (h @ [mk_request HDelete (''/api/v1/customers/'' @ c @ ''/selfie'') NoBody])
                  (mk_request HDelete (''/api/v1/customers/'' @ c @ ''/liveness'') NoBody) of
             Inl e \<Rightarrow>
               (ResponseHandler_error ''Failed to delete customer data'' 500
                  (''Failed to delete liveness data: '' @ error_text e),
                h @ [mk_request HDelete (''/api/v1/customers/'' @ c @ ''/selfie'') NoBody,
                     mk_request HDelete (''/api/v1/customers/'' @ c @ ''/liveness'') NoBody])
           | Inr u' \<Rightarrow>
               (ResponseHandler_success [(''customerId'', Str c), (''deleted'', Flag True)]
                  ''Customer data deleted successfully'',
                h @ [mk_request HDelete (''/api/v1/customers/'' @ c @ ''/selfie'') NoBody,
                     mk_request HDelete (''/api/v1/customers/'' @ c @ ''/liveness'') NoBody])))"
  by (simp add: VerificationController_deleteCustomer_def deleteSelfie_def deleteLivenessData_def
      send_def split: sum.splits)

theorem deleteCustomer_stops_at_first_failure_witness:
  "VerificationController_deleteCustomer offline [] ''cust_3'' =
     (ResponseHandler_error ''Failed to delete customer data'' 500
        ''Failed to delete selfie: connect ECONNREFUSED'',
      [mk_request HDelete ''/api/v1/customers/cust_3/selfie'' NoBody]) \<and>
   VerificationController_deleteCustomer agreeable [] ''cust_3'' =
     (ResponseHandler_success [(''customerId'', Str ''cust_3''), (''deleted'', Flag True)]
        ''Customer data deleted successfully'',
      [mk_request HDelete ''/api/v1/customers/cust_3/selfie'' NoBody,
       mk_request HDelete ''/api/v1/customers/cust_3/liveness'' NoBody])"
  using deleteCustomer_stops_at_first_failure [of offline "[]" "''cust_3''"]
    deleteCustomer_stops_at_first_failure [of agreeable "[]" "''cust_3''"]
  by (simp add: provider_defs mk_request_def)

section \<open>Face detection and the mask check\<close>

text \<open>
  C5, as the specification states it, fails on the code. The provider detects the face
  and refuses the mask check; the operation answers with the error and no detection
  result.
\<close>

theorem faceDetection_mask_failure_is_fatal:
  "post_faces no_mask_service [] (mk_request HPost ''/faces'' (ImageBody ''c2VsZmll'')) =
     Inr \<lparr>face_id = ''face_1'', detection_score = 98 / 100,
          detection_boundingBox = \<lparr>box_x = 10, box_y = 20, box_width = 100, box_height = 120\<rparr>,
          face_links_self = ''/faces/face_1'', face_links_template = ''/faces/face_1/face-template''\<rparr> \<and>
   VerificationController_performFaceDetection no_mask_service [] ''cust_1'' (Some ''c2VsZmll'') =
     (ResponseHandler_error ''Failed to detect face'' 500
        ''Failed to check face mask: mask model unavailable'',
      [mk_request HPost ''/faces'' (ImageBody ''c2VsZmll''),
       mk_request HGet ''/faces/face_1/face-mask'' NoBody])"
  by (simp add: controller_defs adapter_defs provider_defs)

text \<open>
  C5, amended. When the detection succeeds and the mask check that follows fails, the
  operation fails: after the two requests it answers with the error \<open>Failed to detect
  face\<close>, status 500, whose detail is the error of the mask check, and returns no
  detection result.
\<close>

theorem faceDetection_fails_on_mask_failure:
  assumes "img \<noteq> []"
    and "post_faces p h (mk_request HPost ''/faces'' (ImageBody img)) = Inr faceResult"
    and "get_face_mask p (h @ [mk_request HPost ''/faces'' (ImageBody img)])
           (mk_request HGet (''/faces/'' @ face_id faceResult @ ''/face-mask'') NoBody) = Inl e"
  shows "VerificationController_performFaceDetection p h c (Some img) =
           (ResponseHandler_error ''Failed to detect face'' 500
              (''Failed to check face mask: '' @ error_text e),
            h @ [mk_request HPost ''/faces'' (ImageBody img),
                 mk_request HGet (''/faces/'' @ face_id faceResult @ ''/face-mask'') NoBody]) \<and>
         data_of (fst (VerificationController_performFaceDetection p h c (Some img))) = []"
  using assms
  by (simp add: VerificationController_performFaceDetection_def detectFace_def checkFaceMask_def
      send_def data_of_def)

theorem faceDetection_fails_on_mask_failure_witness:
  "''aW1n'' \<noteq> [] \<and>
   VerificationController_performFaceDetection mask_offline [] ''cust_2'' (Some ''aW1n'') =
     (ResponseHandler_error ''Failed to detect face'' 500
        ''Failed to check face mask: connect ECONNREFUSED'',
      [mk_request HPost ''/faces'' (ImageBody ''aW1n''),
       mk_request HGet ''/faces/face_1/face-mask'' NoBody])"
proof -
  have detected: "post_faces mask_offline [] (mk_request HPost ''/faces'' (ImageBody ''aW1n'')) =
      Inr \<lparr>face_id = ''face_1'', detection_score = 98 / 100,
           detection_boundingBox = \<lparr>box_x = 10, box_y = 20, box_width = 100, box_height = 120\<rparr>,
           face_links_self = ''/faces/face_1'', face_links_template = ''/faces/face_1/face-template''\<rparr>"
    by (simp add: provider_defs)
  have refused: "get_face_mask mask_offline ([] @ [mk_request HPost ''/faces'' (ImageBody ''aW1n'')])
      (mk_request HGet (''/faces/'' @
         face_id \<lparr>face_id = ''face_1'', detection_score = 98 / 100,
           detection_boundingBox = \<lparr>box_x = 10, box_y = 20, box_width = 100, box_height = 120\<rparr>,
           face_links_self = ''/faces/face_1'', face_links_template = ''/faces/face_1/face-template''\<rparr> @
         ''/face-mask'') NoBody) =
      Inl \<lparr>response_data_message = None, error_message = ''connect ECONNREFUSED''\<rparr>"
    by (simp add: provider_defs)
  have "''aW1n'' \<noteq> []" by simp
  from faceDetection_fails_on_mask_failure [OF this detected refused, of "''cust_2''"]
  show ?thesis by (simp add: provider_defs)
qed

section \<open>Face comparison with no reference\<close>

text \<open>
  C7. When neither \<open>referenceFace\<close> nor \<open>referenceFaceTemplate\<close> is given (missing or
  empty), \<open>compareFaces\<close> answers with a validation error and sends nothing to the
  provider; the route's validator rejects the same bodies.
\<close>

theorem compareFaces_rejects_missing_references:
  assumes "\<not> truthy rf" and "\<not> truthy rt"
  shows "VerificationController_compareFaces p h c probe rf rt =
           (ResponseHandler_validationError
              [if truthy probe then ''Either referenceFace or referenceFaceTemplate is required''
               else ''probeFaceId is required''], h) \<and>
         validateFaceComparison_custom rf rt = Inl ''Either referenceFace or referenceFaceTemplate is required''"
  using assms
  by (auto simp: VerificationController_compareFaces_def validateFaceComparison_custom_def truthy_def
      split: option.splits)

theorem compareFaces_rejects_missing_references_witness:
  "\<not> truthy None \<and> \<not> truthy (Some []) \<and>
   VerificationController_compareFaces agreeable [] ''cust_1'' (Some ''face_1'') None (Some []) =
     (ResponseHandler_validationError [''Either referenceFace or referenceFaceTemplate is required''], []) \<and>
   validateFaceComparison_custom None (Some []) =
     Inl ''Either referenceFace or referenceFaceTemplate is required''"
  using compareFaces_rejects_missing_references
    [where rf = None and rt = "Some []" and p = agreeable and h = "[]" and c = "''cust_1''"
       and probe = "Some ''face_1''"]
  by (simp add: truthy_def)

section \<open>What a failure hands to the response handler\<close>




section \<open>The credentials of the adapter\<close>

text \<open>
  C9. The configuration object has no property \<open>bearerToken\<close>, so the header the
  constructor builds from it is \<open>Bearer undefined\<close>. Every request a method of the
  adapter sends carries that header, and the client is the same whatever the API key and
  the API secret of the environment are: no request uses them.
\<close>

theorem authorization_ignores_credentials:
  "property (config_innovatrics e) ''bearerToken'' = None \<and>
   (\<forall>r \<in> set (requests_after p h call).
      r \<in> set h \<or>
      property (wire_headers (InnovatricsService e) r) ''Authorization'' = Some (Some ''Bearer undefined'')) \<and>
   InnovatricsService (e(''INNOVATRICS_API_KEY'' := k, ''INNOVATRICS_API_SECRET'' := s)) = InnovatricsService e"
proof (intro conjI ballI)
  show "property (config_innovatrics e) ''bearerToken'' = None"
    by (simp add: property_def config_innovatrics_def)
next
  fix r assume "r \<in> set (requests_after p h call)"
  then show "r \<in> set h \<or>
      property (wire_headers (InnovatricsService e) r) ''Authorization'' = Some (Some ''Bearer undefined'')"
    using requests_after_plain [of r p h call] wire_authorization [of r _ e] by blast
next
  show "InnovatricsService (e(''INNOVATRICS_API_KEY'' := k, ''INNOVATRICS_API_SECRET'' := s)) = InnovatricsService e"
    by (simp add: InnovatricsService_def property_def config_innovatrics_def)
qed

theorem authorization_ignores_credentials_witness:
  "property (config_innovatrics deployed_env) ''apiKey'' = Some ''key-0123'' \<and>
   property (config_innovatrics deployed_env) ''apiSecret'' = Some ''secret-4567'' \<and>
   property (config_innovatrics deployed_env) ''bearerToken'' = None \<and>
   requests_after agreeable [] (Call_uploadBinaryImage ''cust_1'' [255, 216] ''/customers/cust_1/selfie'') =
     [\<lparr>req_method = HPut, url = ''/customers/cust_1/selfie'', payload = BinaryBody [255, 216],
       req_headers = [(''Content-Type'', Some ''application/octet-stream'')]\<rparr>] \<and>
   property
     (wire_headers (InnovatricsService deployed_env)
        \<lparr>req_method = HPut, url = ''/customers/cust_1/selfie'', payload = BinaryBody [255, 216],
         req_headers = [(''Content-Type'', Some ''application/octet-stream'')]\<rparr>)
     ''Authorization'' = Some (Some ''Bearer undefined'')"
proof -
  have sent: "requests_after agreeable [] (Call_uploadBinaryImage ''cust_1'' [255, 216] ''/customers/cust_1/selfie'') =
     [\<lparr>req_method = HPut, url = ''/customers/cust_1/selfie'', payload = BinaryBody [255, 216],
       req_headers = [(''Content-Type'', Some ''application/octet-stream'')]\<rparr>]"
    by (simp add: uploadBinaryImage_def send_def provider_defs)
  have configured:
    "property (config_innovatrics deployed_env) ''apiKey'' = Some ''key-0123'' \<and>
     property (config_innovatrics deployed_env) ''apiSecret'' = Some ''secret-4567''"
    by (simp add: property_def config_innovatrics_def deployed_env_def or_else_def)
  from authorization_ignores_credentials
    [of deployed_env agreeable "[]" "Call_uploadBinaryImage ''cust_1'' [255, 216] ''/customers/cust_1/selfie''"]
  show ?thesis using sent configured by simp
qed

section \<open>Creating a customer\<close>

text \<open>
  C10. With a \<open>userId\<close>, \<open>createCustomer\<close> sends one request, \<open>POST /customers\<close>
  with no body: neither the \<open>userId\<close> nor the onboarding status is in it, the object
  the controller passes being dropped by the adapter's method, which has no parameter.
  The \<open>userId\<close> of a successful response is the caller's own, put there by the
  controller, next to the id the provider assigned.
\<close>

theorem createCustomer_sends_no_body:
  assumes "u \<noteq> []"
  shows "snd (VerificationController_createCustomer p now h (Some u)) =
           h @ [\<lparr>req_method = HPost, url = ''/customers'', payload = NoBody, req_headers = []\<rparr>] \<and>
         fst (VerificationController_createCustomer p now h (Some u)) =
           (case post_customers p h \<lparr>req_method = HPost, url = ''/customers'', payload = NoBody, req_headers = []\<rparr> of
              Inl e \<Rightarrow> ResponseHandler_error ''Failed to create customer'' 500
                         (''Failed to create customer: '' @ error_text e)
            | Inr customer \<Rightarrow>
                ResponseHandler_success
                  [(''customerId'', Str (customer_id customer)), (''status'', Str ''created''),
                   (''createdAt'', Date now), (''userId'', Str u)]
                  ''Customer created successfully'')"
  using assms
  by (auto simp: VerificationController_createCustomer_def createCustomer_def send_def mk_request_def
      call_dropping_arguments_def split: sum.splits)

theorem createCustomer_sends_no_body_witness:
  "''user123'' \<noteq> [] \<and>
   VerificationController_createCustomer agreeable 1700000000 [] (Some ''user123'') =
     (ResponseHandler_success
        [(''customerId'', Str ''cust_1''), (''status'', Str ''created''),
         (''createdAt'', Date 1700000000), (''userId'', Str ''user123'')]
        ''Customer created successfully'',
      [\<lparr>req_method = HPost, url = ''/customers'', payload = NoBody, req_headers = []\<rparr>])"
  using createCustomer_sends_no_body
    [where u = "''user123''" and p = agreeable and now = 1700000000 and h = "[]"]
  by (simp add: provider_defs prod_eq_iff)

end
